theory Spec2Isabelle
  imports
    Complex_Main
    "HOL-Library.Multiset"
    "HOL-Library.Char_ord"
    "HOL-Library.List_Lexorder"
    "HOL-Library.Log_Nat"
begin

section \<open>Data model of \<open>f1_dashboard_data.py\<close>\<close>

text \<open>
  The program is one function, \<open>process_f1_data\<close>, that loads five CSV files into pandas
  data frames, derives five tables from them and writes each to a CSV file.

  A data frame is a list of rows, a row is a record of the columns the program reads.
  The identifier columns are integers. A value of a column that the program passes to
  \<open>pd.to_numeric(..., errors='coerce')\<close> is a \<open>cell\<close>: \<open>Num r\<close> is a value that pandas
  reads as the number \<open>r\<close>, \<open>Txt s\<close> is a text that is not a number (a retirement code
  such as \<open>R\<close>), \<open>NaN\<close> is an empty field. A \<open>float64\<close> value is a \<open>float\<close>: a
  rational, or \<open>None\<close> for pandas' missing marker. The sums of points are computed in
  \<open>float64\<close> arithmetic, as pandas computes them; the differences of positions and the
  means are computed exactly.
  A text column (\<open>forename\<close>, \<open>surname\<close>, \<open>name\<close>) holds \<open>Some\<close> text or \<open>None\<close> where
  the field is missing.
\<close>

datatype cell = Num rat | Txt string | NaN

type_synonym float = "rat option"

record driver =
  d_driverId :: int
  forename :: "string option"
  surname :: "string option"

record race =
  raceId :: int

record result =
  r_raceId :: int
  r_driverId :: int
  r_constructorId :: int
  positionOrder :: cell
  points :: cell

record qualifying =
  q_raceId :: int
  q_driverId :: int
  position :: cell

record constructor =
  c_constructorId :: int
  name :: "string option"

text \<open>The five data frames that \<open>process_f1_data\<close> holds after loading.\<close>

record tables =
  drivers_df :: "driver list"
  races_df :: "race list"
  results_df :: "result list"
  qualifying_df :: "qualifying list"
  constructors_df :: "constructor list"

text \<open>The input directory: each of the five files is there (\<open>Some\<close> rows) or not.\<close>

record directory =
  drivers_csv :: "driver list option"
  races_csv :: "race list option"
  results_csv :: "result list option"
  qualifying_csv :: "qualifying list option"
  constructors_csv :: "constructor list option"

datatype error = FileNotFoundError string

text \<open>A written CSV file: a label column and a column of floats or of counts.\<close>

datatype csv = FloatCsv "(string option \<times> float) list" | IntCsv "(string option \<times> nat) list"

text \<open>
  What one call of \<open>process_f1_data\<close> leaves behind: the lines printed, the files written
  (path and contents, in the order of writing) and the data frames as they are when the
  function returns (\<open>None\<close> when loading failed).
\<close>

record run =
  stdout :: "string list"
  written :: "(string \<times> csv) list"
  loaded :: "tables option"

section \<open>The pandas operations the program uses\<close>

text \<open>\<open>pd.to_numeric(s, errors='coerce')\<close> on one value.\<close>

fun to_numeric :: "cell \<Rightarrow> float" where
  "to_numeric (Num r) = Some r"
| "to_numeric (Txt s) = None"
| "to_numeric NaN = None"

text \<open>A float stored back into a column of a data frame.\<close>

fun float_cell :: "float \<Rightarrow> cell" where
  "float_cell (Some r) = Num r"
| "float_cell None = NaN"

text \<open>Subtraction of two float columns, element by element: missing if either is.\<close>

fun float_sub :: "float \<Rightarrow> float \<Rightarrow> float" where
  "float_sub (Some a) (Some b) = Some (a - b)"
| "float_sub _ _ = None"

text \<open>Concatenation of two text columns, element by element: missing if either is.\<close>

fun str_add :: "string option \<Rightarrow> string option \<Rightarrow> string option" where
  "str_add (Some a) (Some b) = Some (a @ b)"
| "str_add _ _ = None"

text \<open>The values of a float column that are not missing (\<open>skipna=True\<close>).\<close>

fun skipna :: "float list \<Rightarrow> rat list" where
  "skipna [] = []"
| "skipna (None # vs) = skipna vs"
| "skipna (Some x # vs) = x # skipna vs"

text \<open>\<open>.mean()\<close> of a group: missing values are skipped, the mean of no value is
  missing.\<close>

definition mean :: "float list \<Rightarrow> float" where
  "mean vs = (let xs = skipna vs in
     if xs = [] then None else Some (sum_list xs / of_nat (length xs)))"

text \<open>
  Rounding to \<open>float64\<close>: the nearest number with a significand of 53 bits, a tie to
  the one with the even significand. \<open>floor_log2 x\<close> is the exponent \<open>e\<close> of a positive
  \<open>x\<close>, the one with \<open>2 ^ e \<le> x < 2 ^ (e + 1)\<close>. The range of the exponent is not
  bounded here: there is no overflow to infinity and there are no subnormal numbers.
\<close>

definition floor_log2 :: "rat \<Rightarrow> int" where
  "floor_log2 x =
     (let (p, q) = quotient_of x; d = bitlen p - bitlen q
      in if 2 powi d \<le> x then d else d - 1)"

definition round_half_even :: "rat \<Rightarrow> int" where
  "round_half_even m =
     (let f = \<lfloor>m\<rfloor>; r = m - of_int f
      in if r < 1 / 2 then f else if 1 / 2 < r then f + 1 else if even f then f else f + 1)"

definition round_float64 :: "rat \<Rightarrow> rat" where
  "round_float64 x =
     (if x = 0 then 0
      else let e = floor_log2 \<bar>x\<bar> - 52
           in sgn x * of_int (round_half_even (\<bar>x\<bar> / 2 powi e)) * 2 powi e)"

definition add64 :: "rat \<Rightarrow> rat \<Rightarrow> rat" where
  "add64 a b = round_float64 (a + b)"

definition sub64 :: "rat \<Rightarrow> rat \<Rightarrow> rat" where
  "sub64 a b = round_float64 (a - b)"

text \<open>
  \<open>.sum()\<close> of a group of a \<open>float64\<close> column, as pandas' \<open>group_sum\<close> computes it:
  the values that are not missing are added in the order of the rows by compensated
  summation,
  \<^verbatim>\<open>y = val - compensation; t = sumx + y; compensation = t - sumx - y; sumx = t\<close>
  and the sum of no value is 0. (pandas sums a column of whole numbers only as \<open>int64\<close>;
  both sums are the exact sum while the absolute values add up to less than \<open>2 ^ 53\<close>.)
\<close>

fun group_sum :: "rat \<times> rat \<Rightarrow> rat list \<Rightarrow> rat" where
  "group_sum (sumx, compensation) [] = sumx"
| "group_sum (sumx, compensation) (val # vals) =
     (let y = sub64 val compensation;
          t = add64 sumx y
      in group_sum (t, sub64 (sub64 t sumx) y) vals)"

definition sum_floats :: "float list \<Rightarrow> float" where
  "sum_floats vs = Some (group_sum (0, 0) (map round_float64 (skipna vs)))"

text \<open>\<open>.nunique()\<close> of a group of identifiers.\<close>

definition nunique :: "int list \<Rightarrow> nat" where
  "nunique xs = length (remdups xs)"

text \<open>
  \<open>df.groupby(key)[val]\<close>: one group for each key that occurs, in ascending order of the
  keys; rows whose key is missing are dropped (pandas' default \<open>dropna=True\<close>); the
  values of a group are in the order of the rows.
\<close>

definition groupby :: "('r \<Rightarrow> 'k::linorder option) \<Rightarrow> ('r \<Rightarrow> 'v) \<Rightarrow> 'r list \<Rightarrow> ('k \<times> 'v list) list" where
  "groupby key val rows =
     map (\<lambda>k. (k, map val (filter (\<lambda>r. key r = Some k) rows)))
       (sort (remdups (List.map_filter key rows)))"

text \<open>
  \<open>pd.merge(left, right, on=..., how='inner')\<close> and \<open>how='left'\<close>, the keys compared by
  \<open>same\<close>: every left row is paired with each right row of the same key, in the order
  of the left rows; a left row with no partner is dropped by the inner merge and kept
  with a missing partner by the left merge.
\<close>

definition merge_inner :: "('a \<Rightarrow> 'b \<Rightarrow> bool) \<Rightarrow> 'a list \<Rightarrow> 'b list \<Rightarrow> ('a \<times> 'b) list" where
  "merge_inner same ls rs = concat (map (\<lambda>l. map (\<lambda>r. (l, r)) (filter (same l) rs)) ls)"

definition merge_left :: "('a \<Rightarrow> 'b \<Rightarrow> bool) \<Rightarrow> 'a list \<Rightarrow> 'b list \<Rightarrow> ('a \<times> 'b option) list" where
  "merge_left same ls rs =
     concat (map (\<lambda>l. case filter (same l) rs of
                          [] \<Rightarrow> [(l, None)]
                        | ms \<Rightarrow> map (\<lambda>r. (l, Some r)) ms) ls)"

text \<open>
  \<open>sort_values(by=<float column>, ascending=...)\<close>: the rows with a value in the wanted
  order, then the rows with a missing value. Rows of equal value keep their order (the
  program leaves the order of ties to pandas' default sorting algorithm).
\<close>

definition float_key :: "float \<Rightarrow> rat" where
  "float_key v = (case v of Some x \<Rightarrow> x | None \<Rightarrow> 0)"

definition sort_values :: "bool \<Rightarrow> ('a \<times> float) list \<Rightarrow> ('a \<times> float) list" where
  "sort_values ascending t =
     (let valid = filter (\<lambda>row. snd row \<noteq> None) t;
          missing = filter (\<lambda>row. snd row = None) t
      in (if ascending then sort_key (\<lambda>row. float_key (snd row)) valid
          else sort_key (\<lambda>row. - float_key (snd row)) valid) @ missing)"

text \<open>\<open>sort_values(by=<count column>, ascending=False)\<close>.\<close>

definition sort_counts_desc :: "('a \<times> nat) list \<Rightarrow> ('a \<times> nat) list" where
  "sort_counts_desc t = sort_key (\<lambda>row. - int (snd row)) t"

text \<open>\<open>os.path.join(a, b)\<close> for a relative \<open>b\<close>.\<close>

definition path_join :: "string \<Rightarrow> string \<Rightarrow> string" where
  "path_join a b = (if a = [] then b else if last a = CHR ''/'' then a @ b else a @ ''/'' @ b)"

section \<open>The stages of \<open>process_f1_data\<close>\<close>

subsection \<open>Driver and team names\<close>

text \<open>\<open>df['forename'] + ' ' + df['surname']\<close> on a row of a left merge with the drivers.\<close>

fun driverName :: "driver option \<Rightarrow> string option" where
  "driverName None = None"
| "driverName (Some d) = str_add (str_add (forename d) (Some '' '')) (surname d)"

fun TeamName :: "constructor option \<Rightarrow> string option" where
  "TeamName None = None"
| "TeamName (Some c) = name c"

text \<open>The left merge of a table keyed by \<open>driverId\<close> with \<open>drivers_df\<close>, reduced to the
  columns \<open>driverName\<close> and the value.\<close>

definition with_driverName :: "(int \<times> 'v) list \<Rightarrow> driver list \<Rightarrow> (string option \<times> 'v) list" where
  "with_driverName t ds =
     map (\<lambda>(row, d). (driverName d, snd row)) (merge_left (\<lambda>row d. d_driverId d = fst row) t ds)"

definition with_TeamName :: "(int \<times> 'v) list \<Rightarrow> constructor list \<Rightarrow> (string option \<times> 'v) list" where
  "with_TeamName t cs =
     map (\<lambda>(row, c). (TeamName c, snd row)) (merge_left (\<lambda>row c. c_constructorId c = fst row) t cs)"

subsection \<open>1. Average positions gained\<close>

text \<open>Lines 32 to 38: the inner merge of qualifying and results on \<open>(raceId, driverId)\<close>,
  as rows \<open>(raceId, driverId, qualifyingPosition, raceFinishPosition)\<close>.\<close>

definition merged_positions :: "qualifying list \<Rightarrow> result list \<Rightarrow> (int \<times> int \<times> cell \<times> cell) list" where
  "merged_positions qs rs =
     map (\<lambda>(q, r). (q_raceId q, q_driverId q, position q, positionOrder r))
       (merge_inner (\<lambda>q r. q_raceId q = r_raceId r \<and> q_driverId q = r_driverId r) qs rs)"

text \<open>Lines 41 to 50: both positions coerced, the rows with a missing one dropped, and
  the column \<open>positionsGained\<close>; the rows are \<open>(driverId, positionsGained)\<close>.\<close>

definition positionsGained :: "(int \<times> int \<times> cell \<times> cell) list \<Rightarrow> (int \<times> float) list" where
  "positionsGained m =
     map (\<lambda>(ra, d, q, f). (d, float_sub q f))
       (filter (\<lambda>(ra, d, q, f). q \<noteq> None \<and> f \<noteq> None)
          (map (\<lambda>(ra, d, q, f). (ra, d, to_numeric q, to_numeric f)) m))"

text \<open>Lines 53 to 57: the left merge with the drivers and the column \<open>driverName\<close>.\<close>

definition positions_gained_df :: "tables \<Rightarrow> (string option \<times> float) list" where
  "positions_gained_df t =
     with_driverName (positionsGained (merged_positions (qualifying_df t) (results_df t)))
       (drivers_df t)"

text \<open>Lines 60 to 62: the mean per \<open>driverName\<close>, sorted descending.\<close>

definition average_positions_gained :: "tables \<Rightarrow> (string option \<times> float) list" where
  "average_positions_gained t =
     sort_values False
       (map (\<lambda>(n, vs). (Some n, mean vs)) (groupby fst snd (positions_gained_df t)))"

subsection \<open>2. Total career races\<close>

definition total_career_races :: "result list \<Rightarrow> (int \<times> nat) list" where
  "total_career_races rs =
     map (\<lambda>(d, ids). (d, nunique ids)) (groupby (\<lambda>r. Some (r_driverId r)) r_raceId rs)"

definition total_career_races_df :: "tables \<Rightarrow> (string option \<times> nat) list" where
  "total_career_races_df t =
     sort_counts_desc (with_driverName (total_career_races (results_df t)) (drivers_df t))"

subsection \<open>3. Average career finish position\<close>

text \<open>Line 82: the result rows whose \<open>positionOrder\<close> coerces to a number. Line 83
  converts the column of this copy; no value is left there that fails to convert.\<close>

definition results_df_clean :: "result list \<Rightarrow> result list" where
  "results_df_clean rs = filter (\<lambda>r. to_numeric (positionOrder r) \<noteq> None) rs"

definition avg_finish_position :: "result list \<Rightarrow> (int \<times> float) list" where
  "avg_finish_position rs =
     map (\<lambda>(d, vs). (d, mean vs))
       (groupby (\<lambda>r. Some (r_driverId r)) (\<lambda>r. to_numeric (positionOrder r)) (results_df_clean rs))"

definition avg_finish_position_df :: "tables \<Rightarrow> (string option \<times> float) list" where
  "avg_finish_position_df t =
     sort_values True (with_driverName (avg_finish_position (results_df t)) (drivers_df t))"

subsection \<open>4. and 5. Total career points of drivers and of teams\<close>

text \<open>Lines 99 and 113: \<open>results_df['points'] = pd.to_numeric(results_df['points'],
  errors='coerce')\<close> assigns the coerced column to the loaded data frame.\<close>

definition coerce_points :: "tables \<Rightarrow> tables" where
  "coerce_points t =
     t\<lparr>results_df := map (\<lambda>r. r\<lparr>points := float_cell (to_numeric (points r))\<rparr>) (results_df t)\<rparr>"

definition total_driver_points :: "result list \<Rightarrow> (int \<times> float) list" where
  "total_driver_points rs =
     map (\<lambda>(d, vs). (d, sum_floats vs))
       (groupby (\<lambda>r. Some (r_driverId r)) (\<lambda>r. to_numeric (points r)) rs)"

definition total_driver_points_df :: "tables \<Rightarrow> (string option \<times> float) list \<times> tables" where
  "total_driver_points_df t =
     (let t' = coerce_points t
      in (sort_values False (with_driverName (total_driver_points (results_df t')) (drivers_df t')), t'))"

definition total_team_points :: "result list \<Rightarrow> (int \<times> float) list" where
  "total_team_points rs =
     map (\<lambda>(c, vs). (c, sum_floats vs))
       (groupby (\<lambda>r. Some (r_constructorId r)) (\<lambda>r. to_numeric (points r)) rs)"

definition total_team_points_df :: "tables \<Rightarrow> (string option \<times> float) list \<times> tables" where
  "total_team_points_df t =
     (let t' = coerce_points t
      in (sort_values False (with_TeamName (total_team_points (results_df t')) (constructors_df t')), t'))"

subsection \<open>Loading, and the whole function\<close>

text \<open>\<open>pd.read_csv(os.path.join(data_dir, file))\<close>: the rows, or \<open>FileNotFoundError\<close>
  with the path as its \<open>filename\<close>.\<close>

definition read_csv :: "string \<Rightarrow> string \<Rightarrow> 'a option \<Rightarrow> error + 'a" where
  "read_csv data_dir file contents =
     (case contents of None \<Rightarrow> Inl (FileNotFoundError (path_join data_dir file)) | Some rows \<Rightarrow> Inr rows)"

text \<open>Lines 16 to 20: the five files are read in this order; the first that is missing
  raises.\<close>

definition load :: "directory \<Rightarrow> string \<Rightarrow> error + tables" where
  "load dir data_dir =
     (case read_csv data_dir ''drivers.csv'' (drivers_csv dir) of Inl e \<Rightarrow> Inl e | Inr ds \<Rightarrow>
      case read_csv data_dir ''races.csv'' (races_csv dir) of Inl e \<Rightarrow> Inl e | Inr ras \<Rightarrow>
      case read_csv data_dir ''results.csv'' (results_csv dir) of Inl e \<Rightarrow> Inl e | Inr rs \<Rightarrow>
      case read_csv data_dir ''qualifying.csv'' (qualifying_csv dir) of Inl e \<Rightarrow> Inl e | Inr qs \<Rightarrow>
      case read_csv data_dir ''constructors.csv'' (constructors_csv dir) of Inl e \<Rightarrow> Inl e | Inr cs \<Rightarrow>
      Inr \<lparr>drivers_df = ds, races_df = ras, results_df = rs, qualifying_df = qs,
           constructors_df = cs\<rparr>)"

definition quote :: "string \<Rightarrow> string" where
  "quote s = [CHR 0x27] @ s @ [CHR 0x27]"

definition output_dir :: string where
  "output_dir = ''processed_data''"

text \<open>
  \<open>process_f1_data(data_dir)\<close>. The result is \<open>Inr\<close> the run when the function returns
  and would be \<open>Inl\<close> an exception that leaves it. The \<open>except FileNotFoundError\<close>
  clause of lines 23 to 26 prints two lines and returns.
\<close>

definition process_f1_data :: "directory \<Rightarrow> string \<Rightarrow> error + run" where
  "process_f1_data dir data_dir =
     (let out0 = [''Loading data from '' @ data_dir @ ''...''] in
      case load dir data_dir of
        Inl (FileNotFoundError filename) \<Rightarrow>
          Inr \<lparr>stdout = out0 @
                 [''Error: One or more required CSV files not found. Make sure '' @ quote data_dir @
                    '' exists and contains all files.'',
                  ''Missing file: '' @ filename],
               written = [], loaded = None\<rparr>
      | Inr t \<Rightarrow>
          (let apg = average_positions_gained t;
               tcr = total_career_races_df t;
               afp = avg_finish_position_df t;
               (tdp, t4) = total_driver_points_df t;
               (ttp, t5) = total_team_points_df t4
           in Inr \<lparr>stdout = out0 @
                 [''All raw data loaded successfully.'',
                  ''Calculating Average Positions Gained...'',
                  ''Average Positions Gained calculated.'',
                  ''Calculating Total Career Races...'',
                  ''Total Career Races calculated.'',
                  ''Calculating Average Career Finish Position...'',
                  ''Average Career Finish Position calculated.'',
                  ''Calculating Total Career Points for Drivers...'',
                  ''Total Career Points for Drivers calculated.'',
                  ''Calculating Most Points Scored by F1 Teams...'',
                  ''Most Points Scored by F1 Teams calculated.'',
                  [CHR 0x0A] @ ''Processed data saved to '' @ quote output_dir @ '' directory:'',
                  ''- average_positions_gained.csv'',
                  ''- total_career_races.csv'',
                  ''- average_career_finish_position.csv'',
                  ''- total_career_points_drivers.csv'',
                  ''- total_career_points_teams.csv'',
                  [CHR 0x0A] @ ''Data processing complete. You can now import these CSVs into Power BI.''],
               written =
                 [(path_join output_dir ''average_positions_gained.csv'', FloatCsv apg),
                  (path_join output_dir ''total_career_races.csv'', IntCsv tcr),
                  (path_join output_dir ''average_career_finish_position.csv'', FloatCsv afp),
                  (path_join output_dir ''total_career_points_drivers.csv'', FloatCsv tdp),
                  (path_join output_dir ''total_career_points_teams.csv'', FloatCsv ttp)],
               loaded = Some t5\<rparr>))"

section \<open>Fixtures\<close>

text \<open>The directory that holds the five files with the rows of the given tables.\<close>

definition stored :: "tables \<Rightarrow> directory" where
  "stored t =
     \<lparr>drivers_csv = Some (drivers_df t), races_csv = Some (races_df t),
      results_csv = Some (results_df t), qualifying_csv = Some (qualifying_df t),
      constructors_csv = Some (constructors_df t)\<rparr>"

text \<open>The end-to-end scenario of the specification; it names no race table, the race of
  the one result is taken.\<close>

definition fixture_tables :: tables where
  "fixture_tables =
     \<lparr>drivers_df = [\<lparr>d_driverId = 1, forename = Some ''Max'', surname = Some ''Verstappen''\<rparr>],
      races_df = [\<lparr>raceId = 10\<rparr>],
      results_df = [\<lparr>r_raceId = 10, r_driverId = 1, r_constructorId = 5,
                     positionOrder = Num 3, points = Num 15\<rparr>],
      qualifying_df = [\<lparr>q_raceId = 10, q_driverId = 1, position = Num 1\<rparr>],
      constructors_df = [\<lparr>c_constructorId = 5, name = Some ''Red Bull''\<rparr>]\<rparr>"

definition fixture :: directory where
  "fixture = stored fixture_tables"

definition no_qualifying :: directory where
  "no_qualifying = fixture\<lparr>qualifying_csv := None\<rparr>"

text \<open>One driver with three races; in the third the driver retired and the file has the
  code \<open>R\<close> for the position and for the points.\<close>

definition retired_tables :: tables where
  "retired_tables =
     \<lparr>drivers_df = [\<lparr>d_driverId = 1, forename = Some ''Max'', surname = Some ''Verstappen''\<rparr>],
      races_df = [\<lparr>raceId = 10\<rparr>, \<lparr>raceId = 11\<rparr>, \<lparr>raceId = 12\<rparr>],
      results_df =
        [\<lparr>r_raceId = 10, r_driverId = 1, r_constructorId = 5, positionOrder = Num 1, points = Num 25\<rparr>,
         \<lparr>r_raceId = 11, r_driverId = 1, r_constructorId = 5, positionOrder = Num 2, points = Num 18\<rparr>,
         \<lparr>r_raceId = 12, r_driverId = 1, r_constructorId = 5, positionOrder = Txt ''R'', points = Txt ''R''\<rparr>],
      qualifying_df =
        [\<lparr>q_raceId = 10, q_driverId = 1, position = Num 3\<rparr>,
         \<lparr>q_raceId = 11, q_driverId = 1, position = Num 1\<rparr>,
         \<lparr>q_raceId = 12, q_driverId = 1, position = Num 2\<rparr>],
      constructors_df = [\<lparr>c_constructorId = 5, name = Some ''Red Bull''\<rparr>]\<rparr>"


text \<open>A result file that lists one race twice for the driver, and a retirement.\<close>

definition duplicated_tables :: tables where
  "duplicated_tables =
     fixture_tables\<lparr>results_df :=
        [\<lparr>r_raceId = 10, r_driverId = 1, r_constructorId = 5, positionOrder = Num 3, points = Num 15\<rparr>,
         \<lparr>r_raceId = 10, r_driverId = 1, r_constructorId = 5, positionOrder = Num 3, points = Num 15\<rparr>,
         \<lparr>r_raceId = 11, r_driverId = 1, r_constructorId = 5, positionOrder = Txt ''R'', points = Num 0\<rparr>]\<rparr>"

text \<open>The end-to-end scenario with a driver table that does not list driver 1.\<close>

definition unlisted_tables :: tables where
  "unlisted_tables = fixture_tables\<lparr>drivers_df := []\<rparr>"

text \<open>Two drivers of the same full name.\<close>

definition namesakes_tables :: tables where
  "namesakes_tables =
     \<lparr>drivers_df =
        [\<lparr>d_driverId = 1, forename = Some ''Max'', surname = Some ''Verstappen''\<rparr>,
         \<lparr>d_driverId = 2, forename = Some ''Max'', surname = Some ''Verstappen''\<rparr>],
      races_df = [\<lparr>raceId = 10\<rparr>],
      results_df =
        [\<lparr>r_raceId = 10, r_driverId = 1, r_constructorId = 5, positionOrder = Num 3, points = Num 15\<rparr>,
         \<lparr>r_raceId = 10, r_driverId = 2, r_constructorId = 5, positionOrder = Num 4, points = Num 12\<rparr>],
      qualifying_df = [],
      constructors_df = [\<lparr>c_constructorId = 5, name = Some ''Red Bull''\<rparr>]\<rparr>"

text \<open>A driver and a team none of whose points are numbers.\<close>

definition unscored_tables :: tables where
  "unscored_tables =
     \<lparr>drivers_df =
        [\<lparr>d_driverId = 1, forename = Some ''Max'', surname = Some ''Verstappen''\<rparr>,
         \<lparr>d_driverId = 2, forename = Some ''Lando'', surname = Some ''Norris''\<rparr>],
      races_df = [\<lparr>raceId = 10\<rparr>, \<lparr>raceId = 11\<rparr>],
      results_df =
        [\<lparr>r_raceId = 10, r_driverId = 1, r_constructorId = 5, positionOrder = Num 3, points = Num 15\<rparr>,
         \<lparr>r_raceId = 10, r_driverId = 2, r_constructorId = 6, positionOrder = Num 20, points = Txt ''R''\<rparr>,
         \<lparr>r_raceId = 11, r_driverId = 2, r_constructorId = 6, positionOrder = Txt ''R'', points = NaN\<rparr>],
      qualifying_df = [],
      constructors_df =
        [\<lparr>c_constructorId = 5, name = Some ''Red Bull''\<rparr>,
         \<lparr>c_constructorId = 6, name = Some ''McLaren''\<rparr>]\<rparr>"




section \<open>Notions used in the statements\<close>

text \<open>The contents of the file written at a path by a run, if the run wrote one.\<close>

definition written_file :: "error + run \<Rightarrow> string \<Rightarrow> csv option" where
  "written_file res path = (case res of Inl e \<Rightarrow> None | Inr r \<Rightarrow> map_of (written r) path)"

text \<open>The first of the five input files, in the order of loading, that is not there.\<close>

definition first_missing :: "directory \<Rightarrow> string option" where
  "first_missing dir =
     (if drivers_csv dir = None then Some ''drivers.csv''
      else if races_csv dir = None then Some ''races.csv''
      else if results_csv dir = None then Some ''results.csv''
      else if qualifying_csv dir = None then Some ''qualifying.csv''
      else if constructors_csv dir = None then Some ''constructors.csv''
      else None)"

text \<open>The labels a left merge attaches to an identifier: the names of the rows with this
  identifier, or one missing label when there is none.\<close>

definition driver_labels :: "driver list \<Rightarrow> int \<Rightarrow> string option list" where
  "driver_labels ds d =
     (case filter (\<lambda>x. d_driverId x = d) ds of
        [] \<Rightarrow> [None]
      | ms \<Rightarrow> map (\<lambda>x. driverName (Some x)) ms)"

definition team_labels :: "constructor list \<Rightarrow> int \<Rightarrow> string option list" where
  "team_labels cs c =
     (case filter (\<lambda>x. c_constructorId x = c) cs of
        [] \<Rightarrow> [None]
      | ms \<Rightarrow> map (\<lambda>x. TeamName (Some x)) ms)"

text \<open>The numbers among the values of a column, in the order of the column.\<close>

fun numbers :: "cell list \<Rightarrow> rat list" where
  "numbers [] = []"
| "numbers (Num x # cs) = x # numbers cs"
| "numbers (Txt s # cs) = numbers cs"
| "numbers (NaN # cs) = numbers cs"

text \<open>The numeric finish positions of a driver, over all result rows of the driver.\<close>

definition finish_positions :: "result list \<Rightarrow> int \<Rightarrow> rat list" where
  "finish_positions rs d = numbers (map positionOrder (filter (\<lambda>x. r_driverId x = d) rs))"

text \<open>The races in which a driver has a result row.\<close>

definition races_of :: "result list \<Rightarrow> int \<Rightarrow> int set" where
  "races_of rs d = r_raceId ` {x \<in> set rs. r_driverId x = d}"

text \<open>The numeric points of the result rows with a given driver or constructor.\<close>

definition scored_points :: "result list \<Rightarrow> (result \<Rightarrow> int) \<Rightarrow> int \<Rightarrow> rat list" where
  "scored_points rs key k = numbers (map points (filter (\<lambda>x. key x = k) rs))"

text \<open>The contributing rows of a driver name: the pairs of a qualifying row and a result
  row of the same race and driver, both positions numeric, once for each driver row of
  this identifier and this name.\<close>

definition gained_rows :: "tables \<Rightarrow> string \<Rightarrow> (qualifying \<times> result) list" where
  "gained_rows t n =
     [(q, r). q \<leftarrow> qualifying_df t, r \<leftarrow> results_df t,
              q_raceId q = r_raceId r \<and> q_driverId q = r_driverId r,
              to_numeric (position q) \<noteq> None \<and> to_numeric (positionOrder r) \<noteq> None,
              d \<leftarrow> drivers_df t, d_driverId d = q_driverId q \<and> driverName (Some d) = Some n]"

text \<open>The positions gained in a contributing row. Both positions of a contributing row
  are numbers; the value 0 of the other case is of no row that any statement mentions.\<close>

fun gain :: "qualifying \<times> result \<Rightarrow> rat" where
  "gain (q, r) = (case (position q, positionOrder r) of (Num a, Num b) \<Rightarrow> a - b | _ \<Rightarrow> 0)"


text \<open>The multiples of \<open>2 ^ - k\<close>.\<close>

definition on_grid :: "nat \<Rightarrow> rat \<Rightarrow> bool" where
  "on_grid k x = (of_int \<lfloor>x * 2 ^ k\<rfloor> = x * 2 ^ k)"

text \<open>Values that \<open>float64\<close> arithmetic adds without rounding, in any order: multiples of
  \<open>2 ^ - k\<close> whose absolute values add up to less than \<open>2 ^ (53 - k)\<close>. Whole and half
  points of a race table are such values, with \<open>k = 1\<close>.\<close>

definition exactly_summable :: "nat \<Rightarrow> rat list \<Rightarrow> bool" where
  "exactly_summable k xs = ((\<forall>x \<in> set xs. on_grid k x) \<and> sum_list (map abs xs) * 2 ^ k < 2 ^ 53)"

section \<open>Properties of the pandas operations\<close>

lemma to_numeric_float_cell [simp]: "to_numeric (float_cell v) = v"
  by (cases v) simp_all

lemma set_map_filter_key: "set (List.map_filter key rows) = {k. Some k \<in> key ` set rows}"
  by (auto simp: List.map_filter_def image_iff) (metis option.sel)+

lemma groupby_keys: "map fst (groupby key val rows) = sort (remdups (List.map_filter key rows))"
  by (simp add: groupby_def comp_def)

lemma groupby_distinct: "distinct (map fst (groupby key val rows))"
  by (simp add: groupby_keys)

lemma groupby_iff:
  "(k, vs) \<in> set (groupby key val rows) \<longleftrightarrow>
     Some k \<in> key ` set rows \<and> vs = map val (filter (\<lambda>r. key r = Some k) rows)"
  by (auto simp: groupby_def set_map_filter_key)

text \<open>The left merges with the drivers and with the constructors, by labels.\<close>

lemma with_driverName_labels:
  "with_driverName t ds = concat (map (\<lambda>row. map (\<lambda>l. (l, snd row)) (driver_labels ds (fst row))) t)"
  unfolding with_driverName_def merge_left_def driver_labels_def map_concat map_map
  by (rule arg_cong [where f = concat], rule map_cong, simp, simp split: list.split)

lemma with_TeamName_labels:
  "with_TeamName t cs = concat (map (\<lambda>row. map (\<lambda>l. (l, snd row)) (team_labels cs (fst row))) t)"
  unfolding with_TeamName_def merge_left_def team_labels_def map_concat map_map
  by (rule arg_cong [where f = concat], rule map_cong, simp, simp split: list.split)

lemma driver_labels_nonempty [simp]: "driver_labels ds d \<noteq> []"
  by (simp add: driver_labels_def split: list.split)

lemma team_labels_nonempty [simp]: "team_labels cs c \<noteq> []"
  by (simp add: team_labels_def split: list.split)

lemma labelled_iff:
  "(l, v) \<in> set (concat (map (\<lambda>row. map (\<lambda>l. (l, snd row)) (labels (fst row))) t))
     \<longleftrightarrow> (\<exists>d. (d, v) \<in> set t \<and> l \<in> set (labels d))"
  by force

lemma labelled_two_rows:
  assumes "(d1, v1) \<in> set t" "(d2, v2) \<in> set t" "d1 \<noteq> d2"
    and "l1 \<in> set (labels d1)" "l2 \<in> set (labels d2)"
  shows "{#(l1, v1), (l2, v2)#} \<subseteq>#
           mset (concat (map (\<lambda>row. map (\<lambda>l. (l, snd row)) (labels (fst row))) t))"
proof -
  let ?f = "\<lambda>row. map (\<lambda>l. (l, snd row)) (labels (fst row))"
  have "(d1, v1) \<in># mset t" using assms(1) by simp
  then obtain M where M: "mset t = add_mset (d1, v1) M" by (rule multi_member_split [THEN exE])
  have "(d2, v2) \<in># mset t" using assms(2) by simp
  then have "(d2, v2) \<in># M" using assms(3) unfolding M by simp
  then obtain N where N: "M = add_mset (d2, v2) N" by (rule multi_member_split [THEN exE])
  have "mset (concat (map ?f t)) = (\<Sum>row\<in>#mset t. mset (?f row))"
    by (simp add: mset_concat comp_def flip: sum_mset_sum_list)
  also have "\<dots> = mset (?f (d1, v1)) + mset (?f (d2, v2)) + (\<Sum>row\<in>#N. mset (?f row))"
    by (simp add: M N)
  finally have eq: "mset (concat (map ?f t))
      = mset (?f (d1, v1)) + mset (?f (d2, v2)) + (\<Sum>row\<in>#N. mset (?f row))" .
  have a: "{#(l1, v1)#} \<subseteq># mset (?f (d1, v1))" using assms(4) by (simp add: image_iff)
  have b: "{#(l2, v2)#} \<subseteq># mset (?f (d2, v2))" using assms(5) by (simp add: image_iff)
  have "{#(l1, v1)#} + {#(l2, v2)#} \<subseteq># mset (?f (d1, v1)) + mset (?f (d2, v2))"
    using a b by (rule subset_mset.add_mono)
  also have "\<dots> \<subseteq># mset (concat (map ?f t))" unfolding eq by simp
  finally show ?thesis by (simp add: add_mset_commute)
qed


lemma coerce_points_idem [simp]: "coerce_points (coerce_points t) = coerce_points t"
  by (simp add: coerce_points_def comp_def)

lemma load_stored [simp]: "load (stored t) data_dir = Inr t"
  by (simp add: load_def stored_def read_csv_def)

lemma load_Inl:
  "first_missing dir = Some f \<Longrightarrow> load dir data_dir = Inl (FileNotFoundError (path_join data_dir f))"
  by (auto simp: first_missing_def load_def read_csv_def split: if_splits)

section \<open>Sums without rounding\<close>

lemma floor_log2_le:
  assumes "0 < x"
  shows "2 powi (floor_log2 x) \<le> x"
proof -
  obtain p q where pq: "quotient_of x = (p, q)" by (cases "quotient_of x")
  have q: "0 < q" using pq by (rule quotient_of_denom_pos)
  have x: "x = of_int p / of_int q" using pq by (rule quotient_of_div)
  have p: "0 < p" using assms q unfolding x by (simp add: zero_less_divide_iff)
  let ?d = "bitlen p - bitlen q"
  have bp: "1 \<le> bitlen p" using p bitlen_eq_zero_iff [of p] bitlen_nonneg [of p] by linarith
  have bq: "1 \<le> bitlen q" using q bitlen_eq_zero_iff [of q] bitlen_nonneg [of q] by linarith
  have "(2::int) ^ nat (bitlen p - 1) \<le> p" using bitlen_bounds [OF p] by simp
  then have "(of_int ((2::int) ^ nat (bitlen p - 1)) :: rat) \<le> of_int p" by (simp only: of_int_le_iff)
  then have lo: "(2::rat) powi (bitlen p - 1) \<le> of_int p"
    using bp by (simp add: power_int_def)
  have "q < (2::int) ^ nat (bitlen q)" using bitlen_bounds [OF q] by simp
  then have "(of_int q :: rat) < of_int ((2::int) ^ nat (bitlen q))" by (simp only: of_int_less_iff)
  then have hi: "of_int q \<le> (2::rat) powi (bitlen q)"
    using bq by (simp add: power_int_def)
  have "(2::rat) powi (?d - 1) = 2 powi (bitlen p - 1) / 2 powi (bitlen q)"
    using power_int_diff [of "2::rat" "bitlen p - 1" "bitlen q"] by (simp add: algebra_simps)
  also have "\<dots> \<le> of_int p / of_int q"
    by (rule frac_le) (use lo hi p q in simp_all)
  finally have low: "(2::rat) powi (?d - 1) \<le> x" unfolding x .
  show ?thesis
    using low by (simp add: floor_log2_def pq Let_def)
qed

lemma round_half_even_of_int [simp]: "round_half_even (of_int n) = n"
  by (simp add: round_half_even_def)

lemma powi_less_exp:
  assumes "(2::rat) powi a \<le> y" and "y < 2 powi b"
  shows "a < b"
proof (rule ccontr)
  assume "\<not> a < b"
  then have "b \<le> a" by simp
  then have "(2::rat) powi b \<le> 2 powi a" by (intro power_int_increasing) simp_all
  with assms show False by simp
qed

text \<open>A multiple of \<open>2 ^ - k\<close> below \<open>2 ^ (53 - k)\<close> is a \<open>float64\<close> number.\<close>

lemma round_float64_exact:
  assumes "on_grid k x" and "\<bar>x\<bar> * 2 ^ k < 2 ^ 53"
  shows "round_float64 x = x"
proof (cases "x = 0")
  case True
  then show ?thesis by (simp add: round_float64_def)
next
  case False
  define m where "m = \<lfloor>\<bar>x\<bar> * 2 ^ k\<rfloor>"
  have g: "of_int \<lfloor>x * 2 ^ k\<rfloor> = x * 2 ^ k" using assms(1) by (simp add: on_grid_def)
  have "\<bar>x\<bar> * 2 ^ k = \<bar>x * 2 ^ k\<bar>" by (simp add: abs_mult)
  also have "\<dots> = \<bar>of_int \<lfloor>x * 2 ^ k\<rfloor>\<bar>" by (simp only: g)
  also have "\<dots> = of_int \<bar>\<lfloor>x * 2 ^ k\<rfloor>\<bar>" by simp
  finally have ax: "\<bar>x\<bar> * 2 ^ k = of_int \<bar>\<lfloor>x * 2 ^ k\<rfloor>\<bar>" .
  then have m: "of_int m = \<bar>x\<bar> * 2 ^ k" by (simp add: m_def)
  define e where "e = floor_log2 \<bar>x\<bar> - 52"
  have pos: "0 < \<bar>x\<bar>" using False by simp
  have lo: "(2::rat) powi (e + 52) \<le> \<bar>x\<bar>" using floor_log2_le [OF pos] by (simp add: e_def)
  have "\<bar>x\<bar> < 2 ^ 53 / 2 ^ k" using assms(2) by (simp add: pos_less_divide_eq)
  also have "\<dots> = (2::rat) powi (53 - int k)"
    using power_int_diff [of "2::rat" 53 "int k"] by simp
  finally have hi: "\<bar>x\<bar> < (2::rat) powi (53 - int k)" .
  have "e + 52 < 53 - int k" using lo hi by (rule powi_less_exp)
  then have ek: "0 \<le> - e - int k" by simp
  define j where "j = nat (- e - int k)"
  have j: "int j = - e - int k" using ek by (simp add: j_def)
  have "\<bar>x\<bar> / 2 powi e = (\<bar>x\<bar> * 2 ^ k) * (2 powi (- e - int k))"
    using power_int_diff [of "2::rat" "- e" "int k"]
    by (simp add: power_int_minus field_simps)
  also have "\<dots> = of_int m * 2 ^ j"
    unfolding m j [symmetric] by simp
  also have "\<dots> = of_int (m * 2 ^ j)" by simp
  finally have sc: "\<bar>x\<bar> / 2 powi e = of_int (m * 2 ^ j)" .
  have r: "round_half_even (\<bar>x\<bar> / 2 powi e) = m * 2 ^ j"
    unfolding sc by (rule round_half_even_of_int)
  have "round_float64 x = sgn x * of_int (round_half_even (\<bar>x\<bar> / 2 powi e)) * 2 powi e"
    unfolding round_float64_def e_def Let_def using False by simp
  also have "\<dots> = sgn x * of_int (m * 2 ^ j) * 2 powi e" by (simp only: r)
  also have "\<dots> = sgn x * (\<bar>x\<bar> / 2 powi e) * 2 powi e" by (simp only: sc)
  also have "\<dots> = sgn x * \<bar>x\<bar>" by simp
  also have "\<dots> = x" by (rule sgn_mult_abs)
  finally show ?thesis .
qed

lemma on_grid_Ints: "on_grid k x \<longleftrightarrow> x * 2 ^ k \<in> \<int>"
  by (auto simp: on_grid_def Ints_def)

lemma on_grid_0 [simp]: "on_grid k 0"
  by (simp add: on_grid_def)

lemma on_grid_add: "on_grid k x \<Longrightarrow> on_grid k y \<Longrightarrow> on_grid k (x + y)"
  by (simp add: on_grid_Ints distrib_right)

lemma group_sum_exact:
  assumes "\<forall>x \<in> set xs. on_grid k x" and "on_grid k s"
    and "(\<bar>s\<bar> + sum_list (map abs xs)) * 2 ^ k < 2 ^ 53"
  shows "group_sum (s, 0) xs = s + sum_list xs"
  using assms
proof (induction xs arbitrary: s)
  case Nil
  then show ?case by simp
next
  case (Cons v xs)
  have nn: "0 \<le> sum_list (map abs xs)" by (rule sum_list_nonneg) auto
  have p2: "(0::rat) < 2 ^ k" by simp
  have bv: "\<bar>v\<bar> * 2 ^ k < 2 ^ 53"
  proof -
    have "\<bar>v\<bar> \<le> \<bar>s\<bar> + sum_list (map abs (v # xs))" using nn by simp
    then have "\<bar>v\<bar> * 2 ^ k \<le> (\<bar>s\<bar> + sum_list (map abs (v # xs))) * 2 ^ k"
      using p2 by (simp only: mult_le_cancel_right) simp
    then show ?thesis using Cons.prems(3) by (rule le_less_trans)
  qed
  have bt: "(\<bar>s + v\<bar> + sum_list (map abs xs)) * 2 ^ k < 2 ^ 53"
  proof -
    have "\<bar>s + v\<bar> + sum_list (map abs xs) \<le> \<bar>s\<bar> + sum_list (map abs (v # xs))" by simp
    then have "(\<bar>s + v\<bar> + sum_list (map abs xs)) * 2 ^ k \<le> (\<bar>s\<bar> + sum_list (map abs (v # xs))) * 2 ^ k"
      using p2 by (simp only: mult_le_cancel_right) simp
    then show ?thesis using Cons.prems(3) by (rule le_less_trans)
  qed
  have bs: "\<bar>s + v\<bar> * 2 ^ k < 2 ^ 53"
  proof -
    have "\<bar>s + v\<bar> \<le> \<bar>s + v\<bar> + sum_list (map abs xs)" using nn by simp
    then have "\<bar>s + v\<bar> * 2 ^ k \<le> (\<bar>s + v\<bar> + sum_list (map abs xs)) * 2 ^ k"
      using p2 by (simp only: mult_le_cancel_right) simp
    then show ?thesis using bt by (rule le_less_trans)
  qed
  have gv: "on_grid k v" using Cons.prems(1) by simp
  have gt: "on_grid k (s + v)" using Cons.prems(2) gv by (rule on_grid_add)
  have y: "sub64 v 0 = v" using round_float64_exact [OF gv bv] by (simp add: sub64_def)
  have t: "add64 s v = s + v" using round_float64_exact [OF gt bs] by (simp add: add64_def)
  have c: "sub64 (sub64 (s + v) s) v = 0"
    using round_float64_exact [OF gv bv] by (simp add: sub64_def round_float64_def)
  have "group_sum (s, 0) (v # xs) = group_sum (s + v, 0) xs"
    by (simp add: y t c Let_def)
  also have "\<dots> = s + v + sum_list xs"
    using Cons.prems(1) gt bt by (intro Cons.IH) simp_all
  finally show ?case by simp
qed

lemma exactly_summable_round:
  assumes "exactly_summable k xs"
  shows "map round_float64 xs = xs"
proof -
  have "round_float64 x = x" if "x \<in> set xs" for x
  proof -
    have "\<bar>x\<bar> \<le> sum_list (map abs xs)"
      using that by (intro member_le_sum_list) auto
    then have "\<bar>x\<bar> * 2 ^ k \<le> sum_list (map abs xs) * 2 ^ k"
      by (simp only: mult_le_cancel_right) simp
    moreover have "sum_list (map abs xs) * 2 ^ k < 2 ^ 53"
      using assms by (simp only: exactly_summable_def)
    ultimately have "\<bar>x\<bar> * 2 ^ k < 2 ^ 53" by (rule le_less_trans)
    moreover have "on_grid k x" using assms that by (simp add: exactly_summable_def)
    ultimately show ?thesis by (intro round_float64_exact)
  qed
  then show ?thesis by (simp add: map_idI)
qed

text \<open>On such values the compensated sum is the exact sum.\<close>

lemma sum_floats_exact:
  assumes "exactly_summable k (skipna vs)"
  shows "sum_floats vs = Some (sum_list (skipna vs))"
proof -
  have "group_sum (0, 0) (skipna vs) = 0 + sum_list (skipna vs)"
    using assms by (intro group_sum_exact [where k = k]) (simp_all add: exactly_summable_def)
  then show ?thesis by (simp add: sum_floats_def exactly_summable_round [OF assms])
qed

text \<open>An equation for evaluating sums: small whole numbers need no rounding.\<close>

lemma sum_floats_code [code]:
  "sum_floats vs =
     (if exactly_summable 0 (skipna vs) then Some (sum_list (skipna vs))
      else Some (group_sum (0, 0) (map round_float64 (skipna vs))))"
  by (simp add: sum_floats_exact) (simp add: sum_floats_def)

section \<open>The end-to-end scenario\<close>

text \<open>
  C1. On the fixture with the one driver Max Verstappen (qualified first, finished third
  with 15 points for Red Bull), the run writes \<open>average_positions_gained.csv\<close> with the one
  row (Max Verstappen, -2) and \<open>total_career_points_teams.csv\<close> with the one row
  (Red Bull, 15).
\<close>

theorem fixture_outputs:
  "written_file (process_f1_data fixture ''data'') ''processed_data/average_positions_gained.csv''
     = Some (FloatCsv [(Some ''Max Verstappen'', Some (- 2))]) \<and>
   written_file (process_f1_data fixture ''data'') ''processed_data/total_career_points_teams.csv''
     = Some (FloatCsv [(Some ''Red Bull'', Some 15)])"
  by code_simp

section \<open>Missing input files\<close>

text \<open>
  C2, as the claim states it: a missing input file makes the run fail with an error that
  reaches the caller. With \<open>qualifying.csv\<close> deleted, the function does not raise: it
  returns.
\<close>

theorem missing_input_not_propagated:
  "\<not> isl (process_f1_data no_qualifying ''data'')"
  by (simp add: process_f1_data_def no_qualifying_def fixture_def stored_def load_def read_csv_def)

text \<open>
  C2, amended. One of the five files is missing exactly when \<open>first_missing\<close> names one.
  Then the function catches the error and returns: it has printed the line
  \<open>Missing file:\<close> with the path of the first missing file, it has written no file, and
  it holds no data frame.
\<close>

theorem missing_input_returns:
  "(first_missing dir = None \<longleftrightarrow>
      drivers_csv dir \<noteq> None \<and> races_csv dir \<noteq> None \<and> results_csv dir \<noteq> None \<and>
      qualifying_csv dir \<noteq> None \<and> constructors_csv dir \<noteq> None) \<and>
   (first_missing dir = Some f \<longrightarrow>
      process_f1_data dir data_dir =
        Inr \<lparr>stdout =
               [''Loading data from '' @ data_dir @ ''...'',
                ''Error: One or more required CSV files not found. Make sure '' @ quote data_dir @
                  '' exists and contains all files.'',
                ''Missing file: '' @ path_join data_dir f],
             written = [], loaded = None\<rparr>)"
proof (intro conjI impI)
  show "first_missing dir = None \<longleftrightarrow>
      drivers_csv dir \<noteq> None \<and> races_csv dir \<noteq> None \<and> results_csv dir \<noteq> None \<and>
      qualifying_csv dir \<noteq> None \<and> constructors_csv dir \<noteq> None"
    by (simp add: first_missing_def)
next
  assume "first_missing dir = Some f"
  then show "process_f1_data dir data_dir =
        Inr \<lparr>stdout =
               [''Loading data from '' @ data_dir @ ''...'',
                ''Error: One or more required CSV files not found. Make sure '' @ quote data_dir @
                  '' exists and contains all files.'',
                ''Missing file: '' @ path_join data_dir f],
             written = [], loaded = None\<rparr>"
    by (simp add: process_f1_data_def load_Inl)
qed

theorem missing_input_returns_witness:
  "first_missing no_qualifying = Some ''qualifying.csv'' \<and>
   process_f1_data no_qualifying ''data'' =
     Inr \<lparr>stdout =
            [''Loading data from data...'',
             ''Error: One or more required CSV files not found. Make sure '' @ [CHR 0x27] @
               ''data'' @ [CHR 0x27] @ '' exists and contains all files.'',
             ''Missing file: data/qualifying.csv''],
          written = [], loaded = None\<rparr>"
proof -
  have h: "first_missing no_qualifying = Some ''qualifying.csv''"
    by (simp add: first_missing_def no_qualifying_def fixture_def stored_def)
  from missing_input_returns [of no_qualifying "''qualifying.csv''" "''data''"] h
  show ?thesis by (simp add: path_join_def quote_def)
qed

section \<open>Career statistics\<close>

lemma set_sort_values [simp]: "set (sort_values asc t) = set t"
  by (auto simp: sort_values_def Let_def)

lemma mset_sort_values [simp]: "mset (sort_values asc t) = mset t"
  by (simp add: sort_values_def Let_def)

lemma set_sort_counts_desc [simp]: "set (sort_counts_desc t) = set t"
  by (simp add: sort_counts_desc_def)

lemma mset_sort_counts_desc [simp]: "mset (sort_counts_desc t) = mset t"
  by (simp add: sort_counts_desc_def)

lemma skipna_to_numeric: "skipna (map to_numeric cs) = numbers cs"
  by (induction cs rule: numbers.induct) simp_all

lemma reduced_groupby_iff:
  "(k, v) \<in> set (map (\<lambda>(k, vs). (k, f vs)) (groupby key val rows)) \<longleftrightarrow>
     Some k \<in> key ` set rows \<and> v = f (map val (filter (\<lambda>r. key r = Some k) rows))"
  by (auto simp: groupby_def set_map_filter_key image_iff)

lemma races_of_set: "races_of rs d = set (map r_raceId (filter (\<lambda>x. r_driverId x = d) rs))"
  by (auto simp: races_of_def)

lemma total_career_races_iff:
  "(d, n) \<in> set (total_career_races rs) \<longleftrightarrow> d \<in> r_driverId ` set rs \<and> n = card (races_of rs d)"
proof -
  have "nunique (map r_raceId (filter (\<lambda>r. r_driverId r = d) rs)) = card (races_of rs d)"
    by (simp add: nunique_def length_remdups_card_conv races_of_def)
  then show ?thesis
    unfolding total_career_races_def reduced_groupby_iff by (auto simp: image_iff)
qed

text \<open>
  C7. For every driver with a row in the result table, the table of career races has
  exactly one row for the \<open>driverId\<close>, its count is the number of distinct races among
  the result rows of the driver, whatever their finish positions are, and the written
  table has this count under each label of the driver.
\<close>

theorem total_career_races_counts_distinct_races:
  assumes "r \<in> set (results_df t)"
  shows "(r_driverId r, card (races_of (results_df t) (r_driverId r)))
           \<in> set (total_career_races (results_df t)) \<and>
         (\<forall>n. (r_driverId r, n) \<in> set (total_career_races (results_df t)) \<longrightarrow>
              n = card (races_of (results_df t) (r_driverId r))) \<and>
         driver_labels (drivers_df t) (r_driverId r) \<noteq> [] \<and>
         (\<forall>l \<in> set (driver_labels (drivers_df t) (r_driverId r)).
            (l, card (races_of (results_df t) (r_driverId r))) \<in> set (total_career_races_df t))"
  using assms
  by (auto simp: total_career_races_iff total_career_races_df_def with_driverName_labels labelled_iff
      simp del: set_concat)


theorem total_career_races_counts_distinct_races_witness:
  "\<lparr>r_raceId = 10, r_driverId = 1, r_constructorId = 5, positionOrder = Num 3, points = Num 15\<rparr>
     \<in> set (results_df duplicated_tables) \<and>
   length (results_df duplicated_tables) = 3 \<and>
   races_of (results_df duplicated_tables) 1 = {10, 11} \<and>
   (Some ''Max Verstappen'', 2) \<in> set (total_career_races_df duplicated_tables)"
proof -
  let ?r = "\<lparr>r_raceId = 10, r_driverId = 1, r_constructorId = 5, positionOrder = Num 3, points = Num 15\<rparr>"
  have h: "?r \<in> set (results_df duplicated_tables)"
    by (simp add: duplicated_tables_def)
  have c: "races_of (results_df duplicated_tables) 1 = {10, 11}"
    by (simp add: races_of_set duplicated_tables_def)
  have l: "driver_labels (drivers_df duplicated_tables) 1 = [Some ''Max Verstappen'']"
    by (simp add: driver_labels_def duplicated_tables_def fixture_tables_def)
  have n: "length (results_df duplicated_tables) = 3"
    by (simp add: duplicated_tables_def)
  from total_career_races_counts_distinct_races [OF h] show ?thesis
    using h c l n by (simp add: numeral_2_eq_2)
qed

lemma skipna_clean:
  "skipna (map (\<lambda>r. to_numeric (positionOrder r)) (filter P (results_df_clean rs)))
     = numbers (map positionOrder (filter P rs))"
proof (induction rs)
  case Nil
  then show ?case by (simp add: results_df_clean_def)
next
  case (Cons r rs)
  then show ?case by (cases "positionOrder r") (simp_all add: results_df_clean_def)
qed

lemma numbers_empty_iff: "numbers cs = [] \<longleftrightarrow> (\<forall>c \<in> set cs. to_numeric c = None)"
  by (induction cs rule: numbers.induct) simp_all

lemma finish_positions_nonempty:
  "finish_positions rs d \<noteq> [] \<longleftrightarrow> d \<in> r_driverId ` set (results_df_clean rs)"
  by (auto simp: finish_positions_def numbers_empty_iff results_df_clean_def image_iff)

lemma avg_finish_position_iff:
  "(d, v) \<in> set (avg_finish_position rs) \<longleftrightarrow>
     finish_positions rs d \<noteq> [] \<and>
     v = Some (sum_list (finish_positions rs d) / of_nat (length (finish_positions rs d)))"
proof -
  have k: "Some d \<in> (\<lambda>r. Some (r_driverId r)) ` set (results_df_clean rs)
            \<longleftrightarrow> finish_positions rs d \<noteq> []"
    by (auto simp: finish_positions_nonempty)
  have m: "finish_positions rs d \<noteq> [] \<Longrightarrow>
        mean (map (\<lambda>r. to_numeric (positionOrder r))
               (filter (\<lambda>r. Some (r_driverId r) = Some d) (results_df_clean rs)))
        = Some (sum_list (finish_positions rs d) / of_nat (length (finish_positions rs d)))"
    by (simp add: mean_def skipna_clean finish_positions_def Let_def)
  show ?thesis
    unfolding avg_finish_position_def reduced_groupby_iff k using m by auto
qed

text \<open>
  C6. For a driver with at least one numeric finish position, the average finish
  position is the sum of the numeric finish positions of the driver divided by their
  number: the rows with a position that is not a number are in neither. With the
  positions 1, 2 and \<open>R\<close> the value is 3/2.
\<close>

theorem average_finish_position_skips_non_numeric:
  assumes "r \<in> set (results_df t)" and "to_numeric (positionOrder r) \<noteq> None"
  shows "finish_positions (results_df t) (r_driverId r) \<noteq> [] \<and>
         (\<forall>v. (r_driverId r, v) \<in> set (avg_finish_position (results_df t)) \<longleftrightarrow>
              v = Some (sum_list (finish_positions (results_df t) (r_driverId r))
                        / of_nat (length (finish_positions (results_df t) (r_driverId r))))) \<and>
         driver_labels (drivers_df t) (r_driverId r) \<noteq> [] \<and>
         (\<forall>l \<in> set (driver_labels (drivers_df t) (r_driverId r)).
            (l, Some (sum_list (finish_positions (results_df t) (r_driverId r))
                      / of_nat (length (finish_positions (results_df t) (r_driverId r)))))
              \<in> set (avg_finish_position_df t))"
proof -
  have ne: "finish_positions (results_df t) (r_driverId r) \<noteq> []"
    using assms by (auto simp: finish_positions_nonempty results_df_clean_def)
  then show ?thesis
    by (auto simp: avg_finish_position_iff avg_finish_position_df_def with_driverName_labels
        labelled_iff simp del: set_concat)
qed

theorem average_finish_position_skips_non_numeric_witness:
  "map positionOrder (results_df retired_tables) = [Num 1, Num 2, Txt ''R''] \<and>
   finish_positions (results_df retired_tables) 1 = [1, 2] \<and>
   avg_finish_position (results_df retired_tables) = [(1, Some (3 / 2))] \<and>
   (Some ''Max Verstappen'', Some (3 / 2)) \<in> set (avg_finish_position_df retired_tables)"
proof -
  let ?r = "\<lparr>r_raceId = 10, r_driverId = 1, r_constructorId = 5, positionOrder = Num 1, points = Num 25\<rparr>"
  have h: "?r \<in> set (results_df retired_tables)"
    by (simp add: retired_tables_def)
  have n: "to_numeric (positionOrder ?r) \<noteq> None" by simp
  have p: "map positionOrder (results_df retired_tables) = [Num 1, Num 2, Txt ''R'']"
    by (simp add: retired_tables_def)
  have f: "finish_positions (results_df retired_tables) 1 = [1, 2]"
    by (simp add: finish_positions_def retired_tables_def)
  have l: "driver_labels (drivers_df retired_tables) 1 = [Some ''Max Verstappen'']"
    by (simp add: driver_labels_def retired_tables_def)
  have a: "avg_finish_position (results_df retired_tables) = [(1, Some (3 / 2))]"
    by code_simp
  from average_finish_position_skips_non_numeric [OF h n] show ?thesis
    using p f l a by simp
qed

section \<open>The loaded tables during a run\<close>

text \<open>
  C4, as the claim states it: no loaded table is changed by a run. After the run on the
  tables with a retirement, the loaded tables are not the tables that were loaded.
\<close>

theorem points_column_mutated:
  "map_sum id loaded (process_f1_data (stored retired_tables) ''data'')
     \<noteq> map_sum id Some (load (stored retired_tables) ''data'')"
  by (simp add: process_f1_data_def total_driver_points_df_def total_team_points_df_def Let_def
      coerce_points_def retired_tables_def)

lemma groupby_map: "groupby key val (map g rows) = groupby (key \<circ> g) (val \<circ> g) rows"
  by (simp add: groupby_def filter_map comp_def List.map_filter_def)

lemma total_driver_points_coerced [simp]:
  "total_driver_points (results_df (coerce_points t)) = total_driver_points (results_df t)"
  by (simp add: total_driver_points_def coerce_points_def groupby_map comp_def)

lemma total_team_points_coerced [simp]:
  "total_team_points (results_df (coerce_points t)) = total_team_points (results_df t)"
  by (simp add: total_team_points_def coerce_points_def groupby_map comp_def)

lemma coerce_points_frame [simp]:
  "drivers_df (coerce_points t) = drivers_df t"
  "constructors_df (coerce_points t) = constructors_df t"
  "qualifying_df (coerce_points t) = qualifying_df t"
  "races_df (coerce_points t) = races_df t"
  by (simp_all add: coerce_points_def)

lemma total_driver_points_df_eq:
  "fst (total_driver_points_df t)
     = sort_values False (with_driverName (total_driver_points (results_df t)) (drivers_df t))"
  by (simp add: total_driver_points_df_def Let_def)

lemma total_team_points_df_eq:
  "fst (total_team_points_df t)
     = sort_values False (with_TeamName (total_team_points (results_df t)) (constructors_df t))"
  by (simp add: total_team_points_df_def Let_def)

text \<open>
  C4, amended. When the five files load, the run returns; the tables it holds at the end
  are the loaded ones except for the column \<open>points\<close> of the results, which holds the
  coerced values; and each written table is what its stage computes from the tables as
  they were loaded, so that the coercion changes no output.
\<close>

theorem points_column_coerced_in_place:
  assumes "load dir data_dir = Inr t"
  shows "\<exists>r. process_f1_data dir data_dir = Inr r \<and>
     loaded r = Some (t\<lparr>results_df :=
        map (\<lambda>x. x\<lparr>points := float_cell (to_numeric (points x))\<rparr>) (results_df t)\<rparr>) \<and>
     map snd (written r) =
       [FloatCsv (average_positions_gained t), IntCsv (total_career_races_df t),
        FloatCsv (avg_finish_position_df t), FloatCsv (fst (total_driver_points_df t)),
        FloatCsv (fst (total_team_points_df t))]"
  using assms
  by (simp add: process_f1_data_def total_driver_points_df_def total_team_points_df_def Let_def)
     (simp add: coerce_points_def)

theorem points_column_coerced_in_place_witness:
  "load (stored retired_tables) ''data'' = Inr retired_tables \<and>
   map points (results_df retired_tables) = [Num 25, Num 18, Txt ''R''] \<and>
   (\<exists>r. process_f1_data (stored retired_tables) ''data'' = Inr r \<and>
        map_option (map points \<circ> results_df) (loaded r) = Some [Num 25, Num 18, NaN] \<and>
        map snd (written r) =
          [FloatCsv [(Some ''Max Verstappen'', Some (1 / 2))],
           IntCsv [(Some ''Max Verstappen'', 3)],
           FloatCsv [(Some ''Max Verstappen'', Some (3 / 2))],
           FloatCsv [(Some ''Max Verstappen'', Some 43)],
           FloatCsv [(Some ''Red Bull'', Some 43)]])"
proof -
  have h: "load (stored retired_tables) ''data'' = Inr retired_tables" by simp
  have p: "map points (results_df retired_tables) = [Num 25, Num 18, Txt ''R'']"
    by (simp add: retired_tables_def)
  have a: "average_positions_gained retired_tables = [(Some ''Max Verstappen'', Some (1 / 2))]"
    by code_simp
  have b: "total_career_races_df retired_tables = [(Some ''Max Verstappen'', 3)]"
    by code_simp
  have c: "avg_finish_position_df retired_tables = [(Some ''Max Verstappen'', Some (3 / 2))]"
    by code_simp
  have d: "fst (total_driver_points_df retired_tables) = [(Some ''Max Verstappen'', Some 43)]"
    by code_simp
  have e: "fst (total_team_points_df retired_tables) = [(Some ''Red Bull'', Some 43)]"
    by code_simp
  have k: "\<exists>r. process_f1_data (stored retired_tables) ''data'' = Inr r \<and>
     loaded r = Some (retired_tables\<lparr>results_df :=
        map (\<lambda>x. x\<lparr>points := float_cell (to_numeric (points x))\<rparr>) (results_df retired_tables)\<rparr>) \<and>
     map snd (written r) =
          [FloatCsv [(Some ''Max Verstappen'', Some (1 / 2))],
           IntCsv [(Some ''Max Verstappen'', 3)],
           FloatCsv [(Some ''Max Verstappen'', Some (3 / 2))],
           FloatCsv [(Some ''Max Verstappen'', Some 43)],
           FloatCsv [(Some ''Red Bull'', Some 43)]]"
    using points_column_coerced_in_place [OF h] by (simp only: a b c d e)
  have q: "map points (map (\<lambda>x. x\<lparr>points := float_cell (to_numeric (points x))\<rparr>)
             (results_df retired_tables)) = [Num 25, Num 18, NaN]"
    by (simp add: retired_tables_def)
  from k q show ?thesis using h p by auto
qed


section \<open>Sums of points\<close>

lemma skipna_points:
  "skipna (map (\<lambda>r. to_numeric (points r)) rs) = numbers (map points rs)"
  using skipna_to_numeric [of "map points rs"] by (simp add: comp_def)

lemma total_driver_points_iff:
  "(d, v) \<in> set (total_driver_points rs) \<longleftrightarrow>
     d \<in> r_driverId ` set rs \<and>
     v = Some (group_sum (0, 0) (map round_float64 (scored_points rs r_driverId d)))"
  unfolding total_driver_points_def reduced_groupby_iff
  by (auto simp: sum_floats_def skipna_points scored_points_def image_iff)

lemma total_team_points_iff:
  "(c, v) \<in> set (total_team_points rs) \<longleftrightarrow>
     c \<in> r_constructorId ` set rs \<and>
     v = Some (group_sum (0, 0) (map round_float64 (scored_points rs r_constructorId c)))"
  unfolding total_team_points_def reduced_groupby_iff
  by (auto simp: sum_floats_def skipna_points scored_points_def image_iff)

lemma scored_points_none:
  "(\<forall>x \<in> set rs. key x = k \<longrightarrow> to_numeric (points x) = None) \<Longrightarrow> scored_points rs key k = []"
  by (simp add: scored_points_def numbers_empty_iff)

text \<open>
  C10. A driver with a result row and no numeric points has the row (driverId, 0) in the
  table of summed points and the value 0 under each of the driver's labels in the written
  table; so has a constructor in the table of the teams.
\<close>

theorem all_points_missing_sum_zero:
  assumes "r \<in> set (results_df t)"
  shows "((\<forall>x \<in> set (results_df t). r_driverId x = r_driverId r \<longrightarrow> to_numeric (points x) = None) \<longrightarrow>
            (r_driverId r, Some 0) \<in> set (total_driver_points (results_df t)) \<and>
            driver_labels (drivers_df t) (r_driverId r) \<noteq> [] \<and>
            (\<forall>l \<in> set (driver_labels (drivers_df t) (r_driverId r)).
               (l, Some 0) \<in> set (fst (total_driver_points_df t)))) \<and>
         ((\<forall>x \<in> set (results_df t). r_constructorId x = r_constructorId r \<longrightarrow> to_numeric (points x) = None) \<longrightarrow>
            (r_constructorId r, Some 0) \<in> set (total_team_points (results_df t)) \<and>
            team_labels (constructors_df t) (r_constructorId r) \<noteq> [] \<and>
            (\<forall>l \<in> set (team_labels (constructors_df t) (r_constructorId r)).
               (l, Some 0) \<in> set (fst (total_team_points_df t))))"
proof (intro conjI impI)
  assume a: "\<forall>x \<in> set (results_df t). r_driverId x = r_driverId r \<longrightarrow> to_numeric (points x) = None"
  show d: "(r_driverId r, Some 0) \<in> set (total_driver_points (results_df t))"
    using assms scored_points_none [OF a] by (simp add: total_driver_points_iff)
  show "driver_labels (drivers_df t) (r_driverId r) \<noteq> []" by simp
  show "\<forall>l \<in> set (driver_labels (drivers_df t) (r_driverId r)).
               (l, Some 0) \<in> set (fst (total_driver_points_df t))"
    using d by (auto simp: total_driver_points_df_eq with_driverName_labels labelled_iff
        simp del: set_concat)
next
  assume a: "\<forall>x \<in> set (results_df t). r_constructorId x = r_constructorId r \<longrightarrow> to_numeric (points x) = None"
  show c: "(r_constructorId r, Some 0) \<in> set (total_team_points (results_df t))"
    using assms scored_points_none [OF a] by (simp add: total_team_points_iff)
  show "team_labels (constructors_df t) (r_constructorId r) \<noteq> []" by simp
  show "\<forall>l \<in> set (team_labels (constructors_df t) (r_constructorId r)).
               (l, Some 0) \<in> set (fst (total_team_points_df t))"
    using c by (auto simp: total_team_points_df_eq with_TeamName_labels labelled_iff
        simp del: set_concat)
qed

theorem all_points_missing_sum_zero_witness:
  "map (\<lambda>x. (r_driverId x, r_constructorId x, points x)) (results_df unscored_tables)
     = [(1, 5, Num 15), (2, 6, Txt ''R''), (2, 6, NaN)] \<and>
   (Some ''Lando Norris'', Some 0) \<in> set (fst (total_driver_points_df unscored_tables)) \<and>
   (Some ''McLaren'', Some 0) \<in> set (fst (total_team_points_df unscored_tables))"
proof -
  let ?r = "\<lparr>r_raceId = 10, r_driverId = 2, r_constructorId = 6, positionOrder = Num 20, points = Txt ''R''\<rparr>"
  have h: "?r \<in> set (results_df unscored_tables)"
    by (simp add: unscored_tables_def)
  have a: "\<forall>x \<in> set (results_df unscored_tables). r_driverId x = r_driverId ?r \<longrightarrow> to_numeric (points x) = None"
    by (simp add: unscored_tables_def)
  have b: "\<forall>x \<in> set (results_df unscored_tables). r_constructorId x = r_constructorId ?r \<longrightarrow> to_numeric (points x) = None"
    by (simp add: unscored_tables_def)
  have l: "driver_labels (drivers_df unscored_tables) 2 = [Some ''Lando Norris'']"
    by (simp add: driver_labels_def unscored_tables_def)
  have m: "team_labels (constructors_df unscored_tables) 6 = [Some ''McLaren'']"
    by (simp add: team_labels_def unscored_tables_def)
  have p: "map (\<lambda>x. (r_driverId x, r_constructorId x, points x)) (results_df unscored_tables)
     = [(1, 5, Num 15), (2, 6, Txt ''R''), (2, 6, NaN)]"
    by (simp add: unscored_tables_def)
  from all_points_missing_sum_zero [OF h] a b have
    "(\<forall>l \<in> set (driver_labels (drivers_df unscored_tables) (r_driverId ?r)).
               (l, Some 0) \<in> set (fst (total_driver_points_df unscored_tables)))"
    "(\<forall>l \<in> set (team_labels (constructors_df unscored_tables) (r_constructorId ?r)).
               (l, Some 0) \<in> set (fst (total_team_points_df unscored_tables)))"
    by blast+
  then show ?thesis using l m p by simp
qed

section \<open>Unlisted drivers\<close>

text \<open>
  C3. On the end-to-end scenario with an empty driver table, the pair (race 10, driver 1)
  is in both the qualifying and the result table with numeric positions and has the gain
  -2, but the table of average positions gained is written without any row; the three
  career tables are written with a row of missing label.
\<close>

theorem unlisted_driver_dropped:
  "positionsGained (merged_positions (qualifying_df unlisted_tables) (results_df unlisted_tables))
     = [(1, Some (- 2))] \<and>
   positions_gained_df unlisted_tables = [(None, Some (- 2))] \<and>
   written_file (process_f1_data (stored unlisted_tables) ''data'')
       ''processed_data/average_positions_gained.csv'' = Some (FloatCsv []) \<and>
   written_file (process_f1_data (stored unlisted_tables) ''data'')
       ''processed_data/total_career_races.csv'' = Some (IntCsv [(None, 1)]) \<and>
   written_file (process_f1_data (stored unlisted_tables) ''data'')
       ''processed_data/average_career_finish_position.csv'' = Some (FloatCsv [(None, Some 3)]) \<and>
   written_file (process_f1_data (stored unlisted_tables) ''data'')
       ''processed_data/total_career_points_drivers.csv'' = Some (FloatCsv [(None, Some 15)])"
  by code_simp

section \<open>Drivers of the same name\<close>

lemma map_filter_Some: "List.map_filter (\<lambda>r. Some (f r)) rows = map f rows"
  by (simp add: List.map_filter_def comp_def)

lemma reduced_groupby_keys:
  "map fst (map (\<lambda>(k, vs). (k, f vs)) (groupby (\<lambda>r. Some (g r)) val rows)) = sort (remdups (map g rows))"
  by (simp add: groupby_def comp_def map_filter_Some)

text \<open>
  C8. Each of the three career tables has one row for each \<open>driverId\<close> that occurs in
  the rows it reduces, in ascending order of the identifiers, and the names are attached
  to these rows afterwards. So two different identifiers that have a row in a career
  table and share a label give two rows of this label in the written table, each with
  the value of its own identifier.
\<close>

theorem namesakes_not_merged:
  assumes "d1 \<noteq> d2"
    and "l \<in> set (driver_labels (drivers_df t) d1)"
    and "l \<in> set (driver_labels (drivers_df t) d2)"
  shows "map fst (total_career_races (results_df t)) = sort (remdups (map r_driverId (results_df t))) \<and>
         map fst (avg_finish_position (results_df t))
           = sort (remdups (map r_driverId (results_df_clean (results_df t)))) \<and>
         map fst (total_driver_points (results_df t)) = sort (remdups (map r_driverId (results_df t))) \<and>
         ((d1, n1) \<in> set (total_career_races (results_df t)) \<and>
          (d2, n2) \<in> set (total_career_races (results_df t)) \<longrightarrow>
            {#(l, n1), (l, n2)#} \<subseteq># mset (total_career_races_df t)) \<and>
         ((d1, a1) \<in> set (avg_finish_position (results_df t)) \<and>
          (d2, a2) \<in> set (avg_finish_position (results_df t)) \<longrightarrow>
            {#(l, a1), (l, a2)#} \<subseteq># mset (avg_finish_position_df t)) \<and>
         ((d1, p1) \<in> set (total_driver_points (results_df t)) \<and>
          (d2, p2) \<in> set (total_driver_points (results_df t)) \<longrightarrow>
            {#(l, p1), (l, p2)#} \<subseteq># mset (fst (total_driver_points_df t)))"
proof (intro conjI impI)
  show "map fst (total_career_races (results_df t)) = sort (remdups (map r_driverId (results_df t)))"
    unfolding total_career_races_def by (rule reduced_groupby_keys)
  show "map fst (avg_finish_position (results_df t))
           = sort (remdups (map r_driverId (results_df_clean (results_df t))))"
    unfolding avg_finish_position_def by (rule reduced_groupby_keys)
  show "map fst (total_driver_points (results_df t)) = sort (remdups (map r_driverId (results_df t)))"
    unfolding total_driver_points_def by (rule reduced_groupby_keys)
next
  assume "(d1, n1) \<in> set (total_career_races (results_df t)) \<and>
          (d2, n2) \<in> set (total_career_races (results_df t))"
  then show "{#(l, n1), (l, n2)#} \<subseteq># mset (total_career_races_df t)"
    unfolding total_career_races_df_def mset_sort_counts_desc with_driverName_labels
    by (intro labelled_two_rows [OF _ _ assms]) simp_all
next
  assume "(d1, a1) \<in> set (avg_finish_position (results_df t)) \<and>
          (d2, a2) \<in> set (avg_finish_position (results_df t))"
  then show "{#(l, a1), (l, a2)#} \<subseteq># mset (avg_finish_position_df t)"
    unfolding avg_finish_position_df_def mset_sort_values with_driverName_labels
    by (intro labelled_two_rows [OF _ _ assms]) simp_all
next
  assume "(d1, p1) \<in> set (total_driver_points (results_df t)) \<and>
          (d2, p2) \<in> set (total_driver_points (results_df t))"
  then show "{#(l, p1), (l, p2)#} \<subseteq># mset (fst (total_driver_points_df t))"
    unfolding total_driver_points_df_eq mset_sort_values with_driverName_labels
    by (intro labelled_two_rows [OF _ _ assms]) simp_all
qed

theorem namesakes_not_merged_witness:
  "map (\<lambda>d. (d_driverId d, driverName (Some d))) (drivers_df namesakes_tables)
     = [(1, Some ''Max Verstappen''), (2, Some ''Max Verstappen'')] \<and>
   total_career_races (results_df namesakes_tables) = [(1, 1), (2, 1)] \<and>
   avg_finish_position (results_df namesakes_tables) = [(1, Some 3), (2, Some 4)] \<and>
   total_driver_points (results_df namesakes_tables) = [(1, Some 15), (2, Some 12)] \<and>
   {#(Some ''Max Verstappen'', 1), (Some ''Max Verstappen'', 1)#}
      \<subseteq># mset (total_career_races_df namesakes_tables) \<and>
   {#(Some ''Max Verstappen'', Some 3), (Some ''Max Verstappen'', Some 4)#}
      \<subseteq># mset (avg_finish_position_df namesakes_tables) \<and>
   {#(Some ''Max Verstappen'', Some 15), (Some ''Max Verstappen'', Some 12)#}
      \<subseteq># mset (fst (total_driver_points_df namesakes_tables))"
proof -
  have ne: "(1::int) \<noteq> 2" by simp
  have l1: "Some ''Max Verstappen'' \<in> set (driver_labels (drivers_df namesakes_tables) 1)"
    by (simp add: driver_labels_def namesakes_tables_def)
  have l2: "Some ''Max Verstappen'' \<in> set (driver_labels (drivers_df namesakes_tables) 2)"
    by (simp add: driver_labels_def namesakes_tables_def)
  have ds: "map (\<lambda>d. (d_driverId d, driverName (Some d))) (drivers_df namesakes_tables)
     = [(1, Some ''Max Verstappen''), (2, Some ''Max Verstappen'')]"
    by (simp add: namesakes_tables_def)
  have a: "total_career_races (results_df namesakes_tables) = [(1, 1), (2, 1)]"
    by code_simp
  have b: "avg_finish_position (results_df namesakes_tables) = [(1, Some 3), (2, Some 4)]"
    by code_simp
  have c: "total_driver_points (results_df namesakes_tables) = [(1, Some 15), (2, Some 12)]"
    by code_simp
  from namesakes_not_merged [OF ne l1 l2, of 1 1 "Some 3" "Some 4" "Some 15" "Some 12"]
  show ?thesis using ds a b c by simp
qed

section \<open>Average positions gained\<close>

lemma with_driverName_append:
  "with_driverName (a @ b) ds = with_driverName a ds @ with_driverName b ds"
  by (simp add: with_driverName_labels)

lemma positionsGained_append: "positionsGained (a @ b) = positionsGained a @ positionsGained b"
  by (simp add: positionsGained_def)

lemma merged_positions_Cons:
  "merged_positions (q # qs) rs = merged_positions [q] rs @ merged_positions qs rs"
  by (simp add: merged_positions_def merge_inner_def)

lemma merged_positions_Nil [simp]: "merged_positions [] rs = []"
  by (simp add: merged_positions_def merge_inner_def)

lemma merged_positions_row_Cons:
  "merged_positions [q] (r # rs) =
     (if q_raceId q = r_raceId r \<and> q_driverId q = r_driverId r
      then [(q_raceId q, q_driverId q, position q, positionOrder r)] else [])
     @ merged_positions [q] rs"
  by (simp add: merged_positions_def merge_inner_def)

lemma merged_positions_row_Nil [simp]: "merged_positions [q] [] = []"
  by (simp add: merged_positions_def merge_inner_def)

lemma labels_named:
  "filter (\<lambda>l. l = Some n) (driver_labels ds d)
     = map (\<lambda>x. Some n) (filter (\<lambda>x. d_driverId x = d \<and> driverName (Some x) = Some n) ds)"
proof -
  have "filter (\<lambda>l. l = Some n) (map (\<lambda>x. driverName (Some x)) ms)
        = map (\<lambda>x. Some n) (filter (\<lambda>x. driverName (Some x) = Some n) ms)" for ms
    by (induction ms) auto
  then show ?thesis
    by (cases "filter (\<lambda>x. d_driverId x = d) ds")
       (auto simp: driver_labels_def filter_empty_conv simp flip: filter_filter split: list.split)
qed


lemma gained_single:
  "map snd (filter (\<lambda>row. fst row = Some n)
      (with_driverName (positionsGained [(ra, d, qp, fp)]) ds))
   = (if to_numeric qp \<noteq> None \<and> to_numeric fp \<noteq> None
      then map (\<lambda>x. float_sub (to_numeric qp) (to_numeric fp))
             (filter (\<lambda>x. d_driverId x = d \<and> driverName (Some x) = Some n) ds)
      else [])"
  by (simp add: positionsGained_def with_driverName_labels filter_map comp_def labels_named)

lemma float_sub_gain:
  "to_numeric (position q) \<noteq> None \<Longrightarrow> to_numeric (positionOrder r) \<noteq> None \<Longrightarrow>
     float_sub (to_numeric (position q)) (to_numeric (positionOrder r)) = Some (gain (q, r))"
  by (cases "position q"; cases "positionOrder r") simp_all

lemma positionsGained_Nil [simp]: "positionsGained [] = []"
  by (simp add: positionsGained_def)

lemma with_driverName_Nil [simp]: "with_driverName [] ds = []"
  by (simp add: with_driverName_labels)

lemma concat_if_singleton:
  "concat (map (\<lambda>d. if P d then [f d] else []) ds) = map f (filter P ds)"
  by (induction ds) simp_all

lemma gained_values_row:
  "map snd (filter (\<lambda>row. fst row = Some n)
      (with_driverName (positionsGained (merged_positions [q] rs)) ds))
   = map (\<lambda>p. Some (gain p))
       [(q, r). r \<leftarrow> rs,
                q_raceId q = r_raceId r \<and> q_driverId q = r_driverId r,
                to_numeric (position q) \<noteq> None \<and> to_numeric (positionOrder r) \<noteq> None,
                d \<leftarrow> ds, d_driverId d = q_driverId q \<and> driverName (Some d) = Some n]"
proof (induction rs)
  case Nil
  then show ?case by simp
next
  case (Cons r rs)
  show ?case
    unfolding merged_positions_row_Cons positionsGained_append with_driverName_append
      filter_append map_append Cons.IH
    by (simp add: gained_single float_sub_gain concat_if_singleton)
qed

lemma gained_values:
  "map snd (filter (\<lambda>row. fst row = Some n) (positions_gained_df t))
     = map (\<lambda>p. Some (gain p)) (gained_rows t n)"
proof -
  have "map snd (filter (\<lambda>row. fst row = Some n)
      (with_driverName (positionsGained (merged_positions qs rs)) ds))
   = map (\<lambda>p. Some (gain p))
       [(q, r). q \<leftarrow> qs, r \<leftarrow> rs,
                q_raceId q = r_raceId r \<and> q_driverId q = r_driverId r,
                to_numeric (position q) \<noteq> None \<and> to_numeric (positionOrder r) \<noteq> None,
                d \<leftarrow> ds, d_driverId d = q_driverId q \<and> driverName (Some d) = Some n]" for qs rs ds
  proof (induction qs)
    case Nil
    then show ?case by simp
  next
    case (Cons q qs)
    show ?case
      unfolding merged_positions_Cons [of q qs] positionsGained_append with_driverName_append
        filter_append map_append Cons.IH gained_values_row
      by simp
  qed
  then show ?thesis by (simp add: positions_gained_df_def gained_rows_def)
qed


lemma skipna_Some: "skipna (map (\<lambda>p. Some (f p)) xs) = map f xs"
  by (induction xs) simp_all

lemma mean_Some:
  "mean (map (\<lambda>p. Some (f p)) xs)
     = (if xs = [] then None else Some (sum_list (map f xs) / of_nat (length xs)))"
  by (simp add: mean_def skipna_Some)

lemma named_iff_gained:
  "Some n \<in> fst ` set (positions_gained_df t) \<longleftrightarrow> gained_rows t n \<noteq> []"
proof -
  have "Some n \<in> fst ` set (positions_gained_df t)
          \<longleftrightarrow> map snd (filter (\<lambda>row. fst row = Some n) (positions_gained_df t)) \<noteq> []"
    by (force simp: filter_empty_conv image_iff)
  then show ?thesis by (simp add: gained_values)
qed

lemma average_positions_gained_iff:
  "(Some n, v) \<in> set (average_positions_gained t) \<longleftrightarrow>
     gained_rows t n \<noteq> [] \<and>
     v = Some (sum_list (map gain (gained_rows t n)) / of_nat (length (gained_rows t n)))"
proof -
  have "(Some n, v) \<in> set (average_positions_gained t) \<longleftrightarrow>
          (\<exists>vs. (n, vs) \<in> set (groupby fst snd (positions_gained_df t)) \<and> v = mean vs)"
    by (force simp: average_positions_gained_def image_iff)
  also have "\<dots> \<longleftrightarrow> gained_rows t n \<noteq> [] \<and> v = mean (map (\<lambda>p. Some (gain p)) (gained_rows t n))"
    by (simp add: groupby_iff named_iff_gained gained_values)
  also have "\<dots> \<longleftrightarrow> gained_rows t n \<noteq> [] \<and>
     v = Some (sum_list (map gain (gained_rows t n)) / of_nat (length (gained_rows t n)))"
    by (auto simp: mean_Some)
  finally show ?thesis .
qed

lemma gained_rows_sound:
  assumes "(q, r) \<in> set (gained_rows t n)"
  shows "q \<in> set (qualifying_df t) \<and> r \<in> set (results_df t) \<and>
         q_raceId q = r_raceId r \<and> q_driverId q = r_driverId r \<and>
         (\<exists>a b. position q = Num a \<and> positionOrder r = Num b \<and> gain (q, r) = a - b)"
proof -
  from assms have m: "q \<in> set (qualifying_df t)" "r \<in> set (results_df t)"
      "q_raceId q = r_raceId r" "q_driverId q = r_driverId r"
      "to_numeric (position q) \<noteq> None" "to_numeric (positionOrder r) \<noteq> None"
    by (auto simp: gained_rows_def split: if_splits)
  from m(5,6) have "\<exists>a b. position q = Num a \<and> positionOrder r = Num b \<and> gain (q, r) = a - b"
    by (cases "position q"; cases "positionOrder r") simp_all
  with m show ?thesis by simp
qed

text \<open>
  The table of average positions gained has the row of a name exactly when some
  contributing row has this name, and its value is then the arithmetic mean of the gains
  of the contributing rows of the name, of whichever driver they are. Every contributing
  row is a qualifying row and a result row of the same race and the same driver, both
  with a numeric position, and its gain is the qualifying position minus the finish
  position.
\<close>

lemma average_positions_gained_by_name:
  "((Some n, v) \<in> set (average_positions_gained t) \<longleftrightarrow>
      gained_rows t n \<noteq> [] \<and>
      v = Some (sum_list (map gain (gained_rows t n)) / of_nat (length (gained_rows t n)))) \<and>
   (\<forall>(q, r) \<in> set (gained_rows t n).
      q \<in> set (qualifying_df t) \<and> r \<in> set (results_df t) \<and>
      q_raceId q = r_raceId r \<and> q_driverId q = r_driverId r \<and>
      (\<exists>a b. position q = Num a \<and> positionOrder r = Num b \<and> gain (q, r) = a - b))"
  using average_positions_gained_iff [of n v t] gained_rows_sound [of _ _ t n] by blast

section \<open>Order of the input rows\<close>












section \<open>Order of the input rows: the sums\<close>
















section \<open>Drivers of the same name in the average positions gained\<close>


end
